theory Spec2Isabelle
  imports Main "HOL-Library.Word"
begin

section \<open>The function-variable idiom of demo\_mocks\<close>

text \<open>
  The Go package \<^verbatim>\<open>demo_mocks\<close> keeps the behaviours of a \<^verbatim>\<open>Service\<close> in two
  function-typed fields, binds them to the real implementations in \<^verbatim>\<open>NewService\<close>, and
  lets a test rebind them. The embedding keeps what the code does beyond returning values
  explicit:
  \<^item> a \<^verbatim>\<open>*Service\<close> is an address into a heap of \<^verbatim>\<open>Service\<close> records; an address with no
    object behind it plays the nil pointer;
  \<^item> \<^verbatim>\<open>fmt.Println\<close> appends one line to \<open>stdout\<close>;
  \<^item> a panic (call of a nil function value, nil pointer dereference, a failure raised by
    the mocking collaborator) is an \<open>Inl\<close> result;
  \<^item> a function value is nil, a method value of one of the two real implementations bound
    to its receiver, or a closure. A closure acts on the environment outside the heap of
    services (standard output and the variables it captured, here the test's \<^verbatim>\<open>ServiceMock\<close>);
    it may fail. Closures that reassign slots or re-enter the service they are installed in
    are outside this model: a HOL datatype cannot hold functions over the heap that holds it.
\<close>

subsection \<open>Data model\<close>

datatype error =
    NilPointerDereference
  | NilFuncCall
  | UnexpectedCall string "string list"
  | OverCall string "string list"
  | ArgumentIndexOutOfRange nat

type_synonym addr = nat

record 'x env =
  stdout :: "string list"
  locals :: 'x

datatype 'x func1 =
    Nil1
  | Bound_myMethod1Impl addr
  | Closure1 "string \<Rightarrow> 'x env \<Rightarrow> error + (string \<times> 'x env)"

datatype 'x func2 =
    Nil2
  | Bound_myMethod2Impl addr
  | Closure2 "'x env \<Rightarrow> error + 'x env"

record 'x Service =
  myFuncVar1 :: "'x func1"
  myFuncVar2 :: "'x func2"

record 'x state =
  heap :: "addr \<Rightarrow> 'x Service option"
  nextAddr :: addr
  world :: "'x env"

subsection \<open>demo\_mocks.go\<close>

definition Println :: "string \<Rightarrow> 'x env \<Rightarrow> 'x env" where
  "Println line e = e\<lparr>stdout := stdout e @ [line]\<rparr>"

text \<open>\<^verbatim>\<open>func (s *Service) myMethod1Impl(input string) string\<close>: the receiver is not used.\<close>

definition myMethod1Impl :: "addr \<Rightarrow> string \<Rightarrow> 'x env \<Rightarrow> string \<times> 'x env" where
  "myMethod1Impl s input e =
     (let output = ''This is my Method 1 being called! Input: '' @ input
      in (output, Println output e))"

text \<open>Calling a value of type \<^verbatim>\<open>func(string) string\<close>.\<close>

definition call_func1 :: "'x func1 \<Rightarrow> string \<Rightarrow> 'x state \<Rightarrow> error + (string \<times> 'x state)" where
  "call_func1 f input st =
     (case f of
        Nil1 \<Rightarrow> Inl NilFuncCall
      | Bound_myMethod1Impl s \<Rightarrow>
          (case myMethod1Impl s input (world st) of (out, e) \<Rightarrow> Inr (out, st\<lparr>world := e\<rparr>))
      | Closure1 g \<Rightarrow>
          (case g input (world st) of
             Inl err \<Rightarrow> Inl err
           | Inr (out, e) \<Rightarrow> Inr (out, st\<lparr>world := e\<rparr>)))"

text \<open>The expression \<^verbatim>\<open>s.myFuncVar1(input)\<close>: dereference, read the slot, call what it holds.\<close>

definition invoke_myFuncVar1 :: "addr \<Rightarrow> string \<Rightarrow> 'x state \<Rightarrow> error + (string \<times> 'x state)" where
  "invoke_myFuncVar1 s input st =
     (case heap st s of
        None \<Rightarrow> Inl NilPointerDereference
      | Some svc \<Rightarrow> call_func1 (myFuncVar1 svc) input st)"

text \<open>\<^verbatim>\<open>func (s *Service) myMethod2Impl()\<close>: calls through the slot and drops the result.\<close>

definition myMethod2Impl :: "addr \<Rightarrow> 'x state \<Rightarrow> error + 'x state" where
  "myMethod2Impl s st =
     (case invoke_myFuncVar1 s ''Method 1 called from Method 2'' st of
        Inl err \<Rightarrow> Inl err
      | Inr (out, st') \<Rightarrow> Inr st')"

definition call_func2 :: "'x func2 \<Rightarrow> 'x state \<Rightarrow> error + 'x state" where
  "call_func2 f st =
     (case f of
        Nil2 \<Rightarrow> Inl NilFuncCall
      | Bound_myMethod2Impl s \<Rightarrow> myMethod2Impl s st
      | Closure2 g \<Rightarrow>
          (case g (world st) of
             Inl err \<Rightarrow> Inl err
           | Inr e \<Rightarrow> Inr (st\<lparr>world := e\<rparr>)))"

definition invoke_myFuncVar2 :: "addr \<Rightarrow> 'x state \<Rightarrow> error + 'x state" where
  "invoke_myFuncVar2 s st =
     (case heap st s of
        None \<Rightarrow> Inl NilPointerDereference
      | Some svc \<Rightarrow> call_func2 (myFuncVar2 svc) st)"

text \<open>\<^verbatim>\<open>&Service{}\<close>: a new object whose fields have their zero value, nil.\<close>

definition new_Service :: "'x state \<Rightarrow> addr \<times> 'x state" where
  "new_Service st =
     (let a = nextAddr st
      in (a, st\<lparr>heap := (heap st)(a \<mapsto> \<lparr>myFuncVar1 = Nil1, myFuncVar2 = Nil2\<rparr>),
                 nextAddr := Suc a\<rparr>))"

text \<open>The assignments \<^verbatim>\<open>s.myFuncVar1 = f\<close> and \<^verbatim>\<open>s.myFuncVar2 = f\<close>.\<close>

definition assign_myFuncVar1 :: "addr \<Rightarrow> 'x func1 \<Rightarrow> 'x state \<Rightarrow> error + 'x state" where
  "assign_myFuncVar1 s f st =
     (case heap st s of
        None \<Rightarrow> Inl NilPointerDereference
      | Some svc \<Rightarrow> Inr (st\<lparr>heap := (heap st)(s \<mapsto> svc\<lparr>myFuncVar1 := f\<rparr>)\<rparr>))"

definition assign_myFuncVar2 :: "addr \<Rightarrow> 'x func2 \<Rightarrow> 'x state \<Rightarrow> error + 'x state" where
  "assign_myFuncVar2 s f st =
     (case heap st s of
        None \<Rightarrow> Inl NilPointerDereference
      | Some svc \<Rightarrow> Inr (st\<lparr>heap := (heap st)(s \<mapsto> svc\<lparr>myFuncVar2 := f\<rparr>)\<rparr>))"

text \<open>
  \<^verbatim>\<open>func NewService() *Service\<close>: allocate, then bind each slot to the method value of
  its real implementation on the new object.
\<close>

definition NewService :: "'x state \<Rightarrow> error + (addr \<times> 'x state)" where
  "NewService st =
     (case new_Service st of (newService, st0) \<Rightarrow>
        (case assign_myFuncVar1 newService (Bound_myMethod1Impl newService) st0 of
           Inl err \<Rightarrow> Inl err
         | Inr st1 \<Rightarrow>
             (case assign_myFuncVar2 newService (Bound_myMethod2Impl newService) st1 of
                Inl err \<Rightarrow> Inl err
              | Inr st2 \<Rightarrow> Inr (newService, st2))))"

definition NormalProgramFlow :: "addr \<Rightarrow> 'x state \<Rightarrow> error + 'x state" where
  "NormalProgramFlow myService st =
     (let st0 = st\<lparr>world := Println ''Func calls on myService struct:'' (world st)\<rparr>
      in case invoke_myFuncVar1 myService ''first call'' st0 of
           Inl err \<Rightarrow> Inl err
         | Inr (out, st1) \<Rightarrow> invoke_myFuncVar2 myService st1)"

subsection \<open>The expectation-recording collaborator\<close>

text \<open>
  Modelled from the spec: the type \<^verbatim>\<open>mock.Mock\<close> of the testify library with its operations
  \<^verbatim>\<open>On\<close>, \<^verbatim>\<open>Return\<close>, \<^verbatim>\<open>Once\<close>, \<^verbatim>\<open>Called\<close>, \<^verbatim>\<open>Arguments.String\<close> and
  \<^verbatim>\<open>AssertExpectations\<close> is imported by the test file and is not among the sources. The
  spec describes it as a collaborator that registers an expected call (callable name,
  expected arguments, a return value and an expected invocation count, once by default),
  matches each call against the registered expectations at call time, returning the
  configured value or signalling a failure when nothing matches or when an expectation
  bounded to N occurrences is called more than N times, and whose verification fails if
  any registered expectation was not satisfied exactly as specified. Arguments and return
  values are strings, the only kind the tests pass.
\<close>

record Call =
  Method :: string
  Arguments :: "string list"
  ReturnArguments :: "string list"
  times :: nat
  totalCalls :: nat

record Mock =
  ExpectedCalls :: "Call list"
  Calls :: "(string \<times> string list) list"

definition emptyMock :: Mock where
  "emptyMock = \<lparr>ExpectedCalls = [], Calls = []\<rparr>"

text \<open>Modelled from the spec: registering an expected call, expected once by default.\<close>

definition On :: "string \<Rightarrow> string list \<Rightarrow> Mock \<Rightarrow> Mock" where
  "On methodName arguments m =
     m\<lparr>ExpectedCalls := ExpectedCalls m @
          [\<lparr>Method = methodName, Arguments = arguments, ReturnArguments = [],
            times = 1, totalCalls = 0\<rparr>]\<rparr>"

text \<open>
  Modelled from the spec: \<^verbatim>\<open>Return\<close> and \<^verbatim>\<open>Once\<close> act on the expectation that \<^verbatim>\<open>On\<close>
  has just registered, the last one of the list.
\<close>

definition update_last :: "('a \<Rightarrow> 'a) \<Rightarrow> 'a list \<Rightarrow> 'a list" where
  "update_last f xs = (case rev xs of [] \<Rightarrow> [] | x # ys \<Rightarrow> rev ys @ [f x])"

definition Return :: "string list \<Rightarrow> Mock \<Rightarrow> Mock" where
  "Return returnArguments m =
     m\<lparr>ExpectedCalls := update_last (\<lambda>c. c\<lparr>ReturnArguments := returnArguments\<rparr>) (ExpectedCalls m)\<rparr>"

definition Once :: "Mock \<Rightarrow> Mock" where
  "Once m = m\<lparr>ExpectedCalls := update_last (\<lambda>c. c\<lparr>times := 1\<rparr>) (ExpectedCalls m)\<rparr>"

text \<open>
  Modelled from the spec: matching a call at call time. The first registered expectation
  for this name and these arguments that has occurrences left is consumed; with none left
  the call is an over-call, with none registered it is unmatched.
\<close>

definition matches :: "string \<Rightarrow> string list \<Rightarrow> Call \<Rightarrow> bool" where
  "matches methodName arguments c \<longleftrightarrow> Method c = methodName \<and> Arguments c = arguments"

fun findExpectedCall :: "string \<Rightarrow> string list \<Rightarrow> Call list \<Rightarrow> (string list \<times> Call list) option" where
  "findExpectedCall methodName arguments [] = None"
| "findExpectedCall methodName arguments (c # cs) =
     (if matches methodName arguments c \<and> totalCalls c < times c
      then Some (ReturnArguments c, c\<lparr>totalCalls := Suc (totalCalls c)\<rparr> # cs)
      else (case findExpectedCall methodName arguments cs of
              None \<Rightarrow> None
            | Some (r, cs') \<Rightarrow> Some (r, c # cs')))"

definition Called :: "string \<Rightarrow> string list \<Rightarrow> Mock \<Rightarrow> error + (string list \<times> Mock)" where
  "Called methodName arguments m =
     (case findExpectedCall methodName arguments (ExpectedCalls m) of
        Some (r, cs') \<Rightarrow>
          Inr (r, m\<lparr>ExpectedCalls := cs', Calls := Calls m @ [(methodName, arguments)]\<rparr>)
      | None \<Rightarrow>
          (if list_ex (matches methodName arguments) (ExpectedCalls m)
           then Inl (OverCall methodName arguments)
           else Inl (UnexpectedCall methodName arguments)))"

text \<open>Modelled from the spec: \<^verbatim>\<open>args.String(i)\<close>, the i-th configured return value.\<close>

definition String_at :: "string list \<Rightarrow> nat \<Rightarrow> error + string" where
  "String_at args i = (if i < length args then Inr (args ! i) else Inl (ArgumentIndexOutOfRange i))"

text \<open>
  Modelled from the spec: verification succeeds when every registered expectation was
  called exactly as often as registered.
\<close>

definition AssertExpectations :: "Mock \<Rightarrow> bool" where
  "AssertExpectations m \<longleftrightarrow> list_all (\<lambda>c. totalCalls c = times c) (ExpectedCalls m)"

subsection \<open>demo\_mocks\_test.go\<close>

text \<open>
  \<^verbatim>\<open>type ServiceMock struct\<close>: the embedded \<^verbatim>\<open>*Service\<close> and \<^verbatim>\<open>mock.Mock\<close>, a counter
  (Go's \<^verbatim>\<open>int\<close> on a 64-bit platform, whose \<^verbatim>\<open>++\<close> wraps) and the captured returns.
  Every test holds one such value in the local variable \<^verbatim>\<open>wrappedWithMock\<close>, which the
  closures and method values it installs capture by reference.
\<close>

record ServiceMock =
  Service :: addr
  Mock :: Mock
  count :: "64 word"
  capturedReturns :: "string list"

type_synonym test_env = "ServiceMock env"
type_synonym test_state = "ServiceMock state"

definition new_ServiceMock :: "addr \<Rightarrow> test_state \<Rightarrow> test_state" where
  "new_ServiceMock s st =
     st\<lparr>world := (world st)\<lparr>locals :=
          \<lparr>Service = s, Mock = emptyMock, count = 0, capturedReturns = []\<rparr>\<rparr>\<rparr>"

definition with_Mock :: "(Mock \<Rightarrow> Mock) \<Rightarrow> test_state \<Rightarrow> test_state" where
  "with_Mock f st = st\<lparr>world := (world st)\<lparr>locals := (locals (world st))\<lparr>Mock := f (Mock (locals (world st)))\<rparr>\<rparr>\<rparr>"

definition count_incr :: "test_env \<Rightarrow> test_env" where
  "count_incr e = e\<lparr>locals := (locals e)\<lparr>count := count (locals e) + 1\<rparr>\<rparr>"

text \<open>The first closure of \<^verbatim>\<open>TestBasic\<close>: count the call, return the input.\<close>

definition TestBasic_func1 :: "string \<Rightarrow> test_env \<Rightarrow> error + (string \<times> test_env)" where
  "TestBasic_func1 input e = Inr (input, count_incr e)"

text \<open>The second closure of \<^verbatim>\<open>TestBasic\<close>: count the call, then return what the real implementation returns.\<close>

definition TestBasic_func2 :: "string \<Rightarrow> test_env \<Rightarrow> error + (string \<times> test_env)" where
  "TestBasic_func2 input e =
     (let e1 = count_incr e
      in Inr (myMethod1Impl (Service (locals e1)) input e1))"

text \<open>
  \<^verbatim>\<open>func TestBasic(t *testing.T)\<close>: the result holds the outcome of the two
  \<^verbatim>\<open>assert.Equal\<close> calls, in order.
\<close>

definition TestBasic :: "test_state \<Rightarrow> error + (bool list \<times> test_state)" where
  "TestBasic st =
     (case NewService st of Inl err \<Rightarrow> Inl err | Inr (s, st0) \<Rightarrow>
     (let st1 = new_ServiceMock s st0 in
     (case assign_myFuncVar1 (Service (locals (world st1))) (Closure1 TestBasic_func1) st1 of
        Inl err \<Rightarrow> Inl err | Inr st2 \<Rightarrow>
     (case NormalProgramFlow (Service (locals (world st2))) st2 of
        Inl err \<Rightarrow> Inl err | Inr st3 \<Rightarrow>
     (let a1 = (count (locals (world st3)) = 2) in
     (case assign_myFuncVar1 (Service (locals (world st3))) (Closure1 TestBasic_func2) st3 of
        Inl err \<Rightarrow> Inl err | Inr st4 \<Rightarrow>
     (case NormalProgramFlow (Service (locals (world st4))) st4 of
        Inl err \<Rightarrow> Inl err | Inr st5 \<Rightarrow>
     (let a2 = (count (locals (world st5)) = 4) in
      Inr ([a1, a2], st5)))))))))"

text \<open>\<^verbatim>\<open>func (m *ServiceMock) myMethod1Instrumented(input string) string\<close>\<close>

definition myMethod1Instrumented :: "string \<Rightarrow> test_env \<Rightarrow> error + (string \<times> test_env)" where
  "myMethod1Instrumented input e =
     (case Called ''myMethod1Instrumented'' [input] (Mock (locals e)) of
        Inl err \<Rightarrow> Inl err
      | Inr (args, m') \<Rightarrow>
          (case String_at args 0 of
             Inl err \<Rightarrow> Inl err
           | Inr r \<Rightarrow> Inr (r, e\<lparr>locals := (locals e)\<lparr>Mock := m'\<rparr>\<rparr>)))"

text \<open>
  \<^verbatim>\<open>func TestWTestifyMockBasic(t *testing.T)\<close>: the result holds the outcome of
  \<^verbatim>\<open>AssertExpectations\<close>.
\<close>

definition TestWTestifyMockBasic :: "test_state \<Rightarrow> error + (bool list \<times> test_state)" where
  "TestWTestifyMockBasic st =
     (case NewService st of Inl err \<Rightarrow> Inl err | Inr (s, st0) \<Rightarrow>
     (let st1 = new_ServiceMock s st0 in
     (case assign_myFuncVar1 (Service (locals (world st1))) (Closure1 myMethod1Instrumented) st1 of
        Inl err \<Rightarrow> Inl err | Inr st2 \<Rightarrow>
     (let st3 = with_Mock (Once \<circ> Return [''my custom return'']
                  \<circ> On ''myMethod1Instrumented'' [''first call'']) st2;
          st4 = with_Mock (Once \<circ> Return [''my custom return 2'']
                  \<circ> On ''myMethod1Instrumented'' [''Method 1 called from Method 2'']) st3 in
     (case NormalProgramFlow (Service (locals (world st4))) st4 of
        Inl err \<Rightarrow> Inl err | Inr st5 \<Rightarrow>
      Inr ([AssertExpectations (Mock (locals (world st5)))], st5))))))"

text \<open>\<^verbatim>\<open>func (m *ServiceMock) myMethod1InstrumentedWithOrigCallTracking(input string) string\<close>\<close>

definition myMethod1InstrumentedWithOrigCallTracking ::
    "string \<Rightarrow> test_env \<Rightarrow> error + (string \<times> test_env)" where
  "myMethod1InstrumentedWithOrigCallTracking input e =
     (case Called ''myMethod1InstrumentedWithOrigCallTracking'' [input] (Mock (locals e)) of
        Inl err \<Rightarrow> Inl err
      | Inr (args, m') \<Rightarrow>
          (let e1 = e\<lparr>locals := (locals e)\<lparr>Mock := m'\<rparr>\<rparr>
           in case myMethod1Impl (Service (locals e1)) input e1 of (originalReturn, e2) \<Rightarrow>
             (let e3 = e2\<lparr>locals := (locals e2)
                          \<lparr>capturedReturns := capturedReturns (locals e2) @ [originalReturn]\<rparr>\<rparr>
              in case String_at args 0 of
                   Inl err \<Rightarrow> Inl err
                 | Inr r \<Rightarrow> Inr (r, e3))))"

text \<open>
  \<^verbatim>\<open>func TestWTestifyMockPassthrough(t *testing.T)\<close>: the result holds the outcome of
  \<^verbatim>\<open>assert.Len\<close> and of \<^verbatim>\<open>AssertExpectations\<close>.
\<close>

definition TestWTestifyMockPassthrough :: "test_state \<Rightarrow> error + (bool list \<times> test_state)" where
  "TestWTestifyMockPassthrough st =
     (case NewService st of Inl err \<Rightarrow> Inl err | Inr (s, st0) \<Rightarrow>
     (let st1 = new_ServiceMock s st0 in
     (case assign_myFuncVar1 (Service (locals (world st1)))
             (Closure1 myMethod1InstrumentedWithOrigCallTracking) st1 of
        Inl err \<Rightarrow> Inl err | Inr st2 \<Rightarrow>
     (let st3 = with_Mock (Once \<circ> Return [''my custom return'']
                  \<circ> On ''myMethod1InstrumentedWithOrigCallTracking'' [''first call'']) st2;
          st4 = with_Mock (Once \<circ> Return [''my custom return 2'']
                  \<circ> On ''myMethod1InstrumentedWithOrigCallTracking''
                       [''Method 1 called from Method 2'']) st3 in
     (case NormalProgramFlow (Service (locals (world st4))) st4 of
        Inl err \<Rightarrow> Inl err | Inr st5 \<Rightarrow>
      Inr ([(length (capturedReturns (locals (world st5))) = 2),
            AssertExpectations (Mock (locals (world st5)))], st5))))))"

text \<open>The state a test process starts in: no object allocated, nothing printed.\<close>

definition start :: "'x \<Rightarrow> 'x state" where
  "start x = \<lparr>heap = Map.empty, nextAddr = 1, world = \<lparr>stdout = [], locals = x\<rparr>\<rparr>"

definition noServiceMock :: ServiceMock where
  "noServiceMock = \<lparr>Service = 0, Mock = emptyMock, count = 0, capturedReturns = []\<rparr>"

text \<open>Calling an operation m times in a row, stopping at the first panic.\<close>

fun call_times :: "nat \<Rightarrow> ('s \<Rightarrow> error + 's) \<Rightarrow> 's \<Rightarrow> error + 's" where
  "call_times 0 X st = Inr st"
| "call_times (Suc m) X st = (case X st of Inl err \<Rightarrow> Inl err | Inr st' \<Rightarrow> call_times m X st')"

text \<open>Calling a function value on each input of a list in turn, stopping at the first panic.\<close>

fun call_each :: "(string \<Rightarrow> 'e \<Rightarrow> error + (string \<times> 'e)) \<Rightarrow> string list \<Rightarrow> 'e \<Rightarrow> error + 'e" where
  "call_each f [] e = Inr e"
| "call_each f (input # inputs) e =
     (case f input e of
        Inl err \<Rightarrow> Inl err
      | Inr (out, e') \<Rightarrow> call_each f inputs e')"



subsection \<open>Concrete states\<close>

text \<open>Two constructed services side by side.\<close>

definition two_services :: "unit state" where
  "two_services =
     \<lparr>heap = [1 \<mapsto> \<lparr>myFuncVar1 = Bound_myMethod1Impl 1, myFuncVar2 = Bound_myMethod2Impl 1\<rparr>,
              2 \<mapsto> \<lparr>myFuncVar1 = Bound_myMethod1Impl 2, myFuncVar2 = Bound_myMethod2Impl 2\<rparr>],
      nextAddr = 3,
      world = \<lparr>stdout = [], locals = ()\<rparr>\<rparr>"

text \<open>A service whose first slot holds the counting closure of \<^verbatim>\<open>TestBasic\<close>.\<close>

definition counting_service :: test_state where
  "counting_service =
     \<lparr>heap = [1 \<mapsto> \<lparr>myFuncVar1 = Closure1 TestBasic_func1, myFuncVar2 = Bound_myMethod2Impl 1\<rparr>],
      nextAddr = 2,
      world = \<lparr>stdout = [], locals = \<lparr>Service = 1, Mock = emptyMock, count = 0, capturedReturns = []\<rparr>\<rparr>\<rparr>"

text \<open>A test environment whose collaborator expects one tracked call on the input "a".\<close>

definition expecting_a :: test_env where
  "expecting_a =
     \<lparr>stdout = [],
      locals = \<lparr>Service = 1,
                Mock = Once (Return [''r''] (On ''myMethod1InstrumentedWithOrigCallTracking'' [''a''] emptyMock)),
                count = 0, capturedReturns = []\<rparr>\<rparr>"

section \<open>Properties\<close>

subsection \<open>Evaluation lemmas\<close>

lemma NewService_eq:
  "NewService st = Inr (nextAddr st,
     st\<lparr>heap := (heap st)(nextAddr st \<mapsto>
            \<lparr>myFuncVar1 = Bound_myMethod1Impl (nextAddr st),
             myFuncVar2 = Bound_myMethod2Impl (nextAddr st)\<rparr>),
        nextAddr := Suc (nextAddr st)\<rparr>)"
  by (simp add: NewService_def new_Service_def assign_myFuncVar1_def assign_myFuncVar2_def Let_def)

lemma invoke_myFuncVar1_Some:
  "heap st s = Some svc \<Longrightarrow> invoke_myFuncVar1 s input st = call_func1 (myFuncVar1 svc) input st"
  by (simp add: invoke_myFuncVar1_def)


lemma call_func1_Bound:
  "call_func1 (Bound_myMethod1Impl r) input st =
     Inr (''This is my Method 1 being called! Input: '' @ input,
          st\<lparr>world := Println (''This is my Method 1 being called! Input: '' @ input) (world st)\<rparr>)"
  by (simp add: call_func1_def myMethod1Impl_def Let_def)

lemma call_func1_Closure:
  "call_func1 (Closure1 g) input st =
     (case g input (world st) of
        Inl err \<Rightarrow> Inl err
      | Inr (out, e) \<Rightarrow> Inr (out, st\<lparr>world := e\<rparr>))"
  by (simp add: call_func1_def)

lemma call_func2_Bound: "call_func2 (Bound_myMethod2Impl r) st = myMethod2Impl r st"
  by (simp add: call_func2_def)


lemma assign_myFuncVar2_Some:
  "heap st s = Some svc \<Longrightarrow>
   assign_myFuncVar2 s f st = Inr (st\<lparr>heap := (heap st)(s \<mapsto> svc\<lparr>myFuncVar2 := f\<rparr>)\<rparr>)"
  by (simp add: assign_myFuncVar2_def)

text \<open>What an invocation does to the heap and the allocator: nothing.\<close>

lemma call_func1_frame:
  "call_func1 f input st = Inr (out, st') \<Longrightarrow> heap st' = heap st \<and> nextAddr st' = nextAddr st"
  by (auto simp: call_func1_def myMethod1Impl_def Let_def split: func1.splits sum.splits prod.splits)

lemma invoke_myFuncVar1_frame:
  "invoke_myFuncVar1 s input st = Inr (out, st') \<Longrightarrow> heap st' = heap st \<and> nextAddr st' = nextAddr st"
  by (auto simp: invoke_myFuncVar1_def split: option.splits dest: call_func1_frame)





lemma count_incr_count [simp]: "count (locals (count_incr e)) = count (locals e) + 1"
  by (simp add: count_incr_def)

lemma NormalProgramFlow_two_calls:
  assumes "heap st s = Some svc" "myFuncVar1 svc = Closure1 f" "myFuncVar2 svc = Bound_myMethod2Impl s"
  shows "NormalProgramFlow s st =
     (case f ''first call'' (Println ''Func calls on myService struct:'' (world st)) of
        Inl err \<Rightarrow> Inl err
      | Inr (out1, e1) \<Rightarrow>
          (case f ''Method 1 called from Method 2'' e1 of
             Inl err \<Rightarrow> Inl err
           | Inr (out2, e2) \<Rightarrow> Inr (st\<lparr>world := e2\<rparr>)))"
  using assms
  by (simp add: NormalProgramFlow_def Let_def invoke_myFuncVar1_def invoke_myFuncVar2_def
      call_func1_Closure call_func2_Bound myMethod2Impl_def split: sum.splits prod.splits)

lemma invoke_myFuncVar2_counting:
  assumes "heap st s = Some svc" "myFuncVar1 svc = Closure1 TestBasic_func1"
    "myFuncVar2 svc = Bound_myMethod2Impl s"
  shows "invoke_myFuncVar2 s st = Inr (st\<lparr>world := count_incr (world st)\<rparr>)"
  using assms
  by (simp add: invoke_myFuncVar1_def invoke_myFuncVar2_def call_func1_Closure call_func2_Bound
      myMethod2Impl_def TestBasic_func1_def)

lemma NormalProgramFlow_counting:
  assumes "heap st s = Some svc" "myFuncVar1 svc = Closure1 TestBasic_func1"
    "myFuncVar2 svc = Bound_myMethod2Impl s"
  shows "NormalProgramFlow s st =
     Inr (st\<lparr>world := count_incr (count_incr (Println ''Func calls on myService struct:'' (world st)))\<rparr>)"
  using assms by (simp add: NormalProgramFlow_two_calls TestBasic_func1_def)

lemma call_times_myFuncVar2_counting:
  assumes "heap st s = Some svc" "myFuncVar1 svc = Closure1 TestBasic_func1"
    "myFuncVar2 svc = Bound_myMethod2Impl s"
  shows "\<exists>st'. call_times m (invoke_myFuncVar2 s) st = Inr st' \<and> heap st' = heap st
     \<and> count (locals (world st')) = count (locals (world st)) + of_nat m"
  using assms
proof (induction m arbitrary: st)
  case 0
  then show ?case by simp
next
  case (Suc m)
  let ?st1 = "st\<lparr>world := count_incr (world st)\<rparr>"
  have step: "invoke_myFuncVar2 s st = Inr ?st1"
    using Suc.prems by (rule invoke_myFuncVar2_counting)
  have "heap ?st1 s = Some svc" using Suc.prems(1) by simp
  from Suc.IH [OF this Suc.prems(2,3)] obtain st' where
    "call_times m (invoke_myFuncVar2 s) ?st1 = Inr st'" "heap st' = heap ?st1"
    "count (locals (world st')) = count (locals (world ?st1)) + of_nat m"
    by blast
  then show ?case using step by simp
qed

lemma call_times_NormalProgramFlow_counting:
  assumes "heap st s = Some svc" "myFuncVar1 svc = Closure1 TestBasic_func1"
    "myFuncVar2 svc = Bound_myMethod2Impl s"
  shows "\<exists>st'. call_times m (NormalProgramFlow s) st = Inr st' \<and> heap st' = heap st
     \<and> count (locals (world st')) = count (locals (world st)) + 2 * of_nat m"
  using assms
proof (induction m arbitrary: st)
  case 0
  then show ?case by simp
next
  case (Suc m)
  define st1 where
    "st1 = st\<lparr>world := count_incr (count_incr (Println ''Func calls on myService struct:'' (world st)))\<rparr>"
  have step: "NormalProgramFlow s st = Inr st1"
    unfolding st1_def using Suc.prems by (rule NormalProgramFlow_counting)
  have c1: "count (locals (world st1)) = count (locals (world st)) + 2"
    by (simp add: st1_def Println_def)
  have h1: "heap st1 = heap st" by (simp add: st1_def)
  then have "heap st1 s = Some svc" using Suc.prems(1) by simp
  from Suc.IH [OF this Suc.prems(2,3)] obtain st' where
    r: "call_times m (NormalProgramFlow s) st1 = Inr st'" and h: "heap st' = heap st1"
    and c: "count (locals (world st')) = count (locals (world st1)) + 2 * of_nat m"
    by blast
  have "call_times (Suc m) (NormalProgramFlow s) st = Inr st'"
    using step r by simp
  moreover have "count (locals (world st')) = count (locals (world st)) + 2 * of_nat (Suc m)"
    unfolding c c1 by (simp add: algebra_simps)
  ultimately show ?case using h h1 by simp
qed

lemma update_last_snoc [simp]: "update_last f (xs @ [x]) = xs @ [f x]"
  by (simp add: update_last_def)

lemma update_last_single [simp]: "update_last f [x] = [f x]"
  by (simp add: update_last_def)

lemma TestWTestifyMockBasic_result:
  "\<exists>st'. TestWTestifyMockBasic st = Inr ([True], st')
     \<and> Calls (Mock (locals (world st'))) =
         [(''myMethod1Instrumented'', [''first call'']),
          (''myMethod1Instrumented'', [''Method 1 called from Method 2''])]
     \<and> map totalCalls (ExpectedCalls (Mock (locals (world st')))) = [1, 1]
     \<and> map times (ExpectedCalls (Mock (locals (world st')))) = [1, 1]"
  by (simp add: TestWTestifyMockBasic_def NewService_eq new_ServiceMock_def assign_myFuncVar1_def
      with_Mock_def On_def Return_def Once_def emptyMock_def
      NormalProgramFlow_two_calls myMethod1Instrumented_def Called_def matches_def String_at_def
      AssertExpectations_def Println_def Let_def)

lemma TestBasic_result:
  "\<exists>st'. TestBasic st = Inr ([True, True], st')
     \<and> count (locals (world st')) = 4"
  by (simp add: TestBasic_def NewService_eq new_ServiceMock_def assign_myFuncVar1_def
      NormalProgramFlow_two_calls TestBasic_func1_def TestBasic_func2_def myMethod1Impl_def
      Println_def count_incr_def Let_def)

lemma tracking_step:
  assumes "myMethod1InstrumentedWithOrigCallTracking input e = Inr (r, e')"
  shows "capturedReturns (locals e') =
           capturedReturns (locals e) @ [''This is my Method 1 being called! Input: '' @ input]
       \<and> Calls (Mock (locals e')) =
           Calls (Mock (locals e)) @ [(''myMethod1InstrumentedWithOrigCallTracking'', [input])]
       \<and> (\<exists>args m'. Called ''myMethod1InstrumentedWithOrigCallTracking'' [input] (Mock (locals e))
              = Inr (args, m') \<and> String_at args 0 = Inr r)"
  using assms
  by (auto simp: myMethod1InstrumentedWithOrigCallTracking_def myMethod1Impl_def Println_def
      Called_def Let_def split: sum.splits prod.splits option.splits if_splits)

lemma call_each_tracking:
  assumes "call_each myMethod1InstrumentedWithOrigCallTracking inputs e = Inr e'"
  shows "capturedReturns (locals e') =
           capturedReturns (locals e) @ map ((@) ''This is my Method 1 being called! Input: '') inputs
       \<and> Calls (Mock (locals e')) =
           Calls (Mock (locals e)) @ map (\<lambda>i. (''myMethod1InstrumentedWithOrigCallTracking'', [i])) inputs"
  using assms
proof (induction inputs arbitrary: e)
  case Nil
  then show ?case by simp
next
  case (Cons input inputs)
  from Cons.prems obtain r e1 where
    1: "myMethod1InstrumentedWithOrigCallTracking input e = Inr (r, e1)"
    and 2: "call_each myMethod1InstrumentedWithOrigCallTracking inputs e1 = Inr e'"
    by (auto split: sum.splits prod.splits)
  from tracking_step [OF 1] Cons.IH [OF 2] show ?case by simp
qed

lemma TestWTestifyMockPassthrough_result:
  "\<exists>st'. TestWTestifyMockPassthrough st = Inr ([True, True], st')
     \<and> capturedReturns (locals (world st')) =
         [''This is my Method 1 being called! Input: first call'',
          ''This is my Method 1 being called! Input: Method 1 called from Method 2'']"
  by (simp add: TestWTestifyMockPassthrough_def NewService_eq new_ServiceMock_def assign_myFuncVar1_def
      with_Mock_def On_def Return_def Once_def emptyMock_def
      NormalProgramFlow_two_calls myMethod1InstrumentedWithOrigCallTracking_def Called_def
      matches_def String_at_def myMethod1Impl_def
      AssertExpectations_def Println_def Let_def)

subsection \<open>Construction and dispatch\<close>

text \<open>
  C1. Default binding: \<^verbatim>\<open>NewService\<close> always returns an object, both of whose slots hold
  the method value of the real implementation on that object; invoking \<^verbatim>\<open>myFuncVar1\<close> on
  it gives exactly the output and effect of \<^verbatim>\<open>myMethod1Impl\<close>, and invoking \<^verbatim>\<open>myFuncVar2\<close>
  is exactly \<^verbatim>\<open>myMethod2Impl\<close>, which prints the line of \<^verbatim>\<open>myMethod1Impl\<close> for the input
  "Method 1 called from Method 2".
\<close>

theorem NewService_default_binding:
  "\<exists>s st'. NewService st = Inr (s, st')
     \<and> heap st' s = Some \<lparr>myFuncVar1 = Bound_myMethod1Impl s, myFuncVar2 = Bound_myMethod2Impl s\<rparr>
     \<and> invoke_myFuncVar1 s input st' =
         Inr (fst (myMethod1Impl s input (world st')),
              st'\<lparr>world := snd (myMethod1Impl s input (world st'))\<rparr>)
     \<and> invoke_myFuncVar2 s st' = myMethod2Impl s st'
     \<and> myMethod2Impl s st' =
         Inr (st'\<lparr>world := snd (myMethod1Impl s ''Method 1 called from Method 2'' (world st'))\<rparr>)"
  by (simp add: NewService_eq invoke_myFuncVar1_def invoke_myFuncVar2_def call_func2_Bound
      myMethod2Impl_def call_func1_def myMethod1Impl_def Let_def)

text \<open>
  C2. Whatever closure \<open>f\<close> is installed into the \<^verbatim>\<open>myFuncVar1\<close> slot of a constructed
  Service, running Behavior Two (the \<^verbatim>\<open>myFuncVar2\<close> slot, still bound to \<^verbatim>\<open>myMethod2Impl\<close>)
  is one call of \<open>f\<close> on the argument "Method 1 called from Method 2": its failure or its
  effect on the environment is the whole outcome, and \<^verbatim>\<open>myMethod1Impl\<close> takes no part.
\<close>

theorem substitute_exercised_by_myMethod2Impl:
  "\<exists>s st0 st1. NewService st = Inr (s, st0)
     \<and> assign_myFuncVar1 s (Closure1 f) st0 = Inr st1
     \<and> heap st1 s = Some \<lparr>myFuncVar1 = Closure1 f, myFuncVar2 = Bound_myMethod2Impl s\<rparr>
     \<and> world st1 = world st
     \<and> invoke_myFuncVar2 s st1 =
         (case f ''Method 1 called from Method 2'' (world st1) of
            Inl err \<Rightarrow> Inl err
          | Inr (out, e) \<Rightarrow> Inr (st1\<lparr>world := e\<rparr>))"
  by (simp add: NewService_eq assign_myFuncVar1_def invoke_myFuncVar1_def invoke_myFuncVar2_def
      call_func2_Bound myMethod2Impl_def call_func1_Closure split: sum.splits prod.splits)

subsection \<open>Call counts\<close>

text \<open>
  C3, as the code has it. With the counting closure of \<^verbatim>\<open>TestBasic\<close> in the \<^verbatim>\<open>myFuncVar1\<close>
  slot, \<open>m\<close> calls of Behavior Two (which invokes the slot once) add \<open>m\<close> to the counter
  and \<open>m\<close> runs of \<^verbatim>\<open>NormalProgramFlow\<close> (which invokes the slot twice, once directly and
  once through Behavior Two) add \<open>2 * m\<close>, in the wrapping arithmetic of Go's \<^verbatim>\<open>int\<close>.
\<close>

theorem call_count:
  assumes "heap st s = Some svc" "myFuncVar1 svc = Closure1 TestBasic_func1"
    "myFuncVar2 svc = Bound_myMethod2Impl s"
  shows "(\<exists>st'. call_times m (invoke_myFuncVar2 s) st = Inr st'
            \<and> count (locals (world st')) = count (locals (world st)) + of_nat (1 * m))
       \<and> (\<exists>st'. call_times m (NormalProgramFlow s) st = Inr st'
            \<and> count (locals (world st')) = count (locals (world st)) + of_nat (2 * m))"
proof
  from call_times_myFuncVar2_counting [OF assms, of m]
  show "\<exists>st'. call_times m (invoke_myFuncVar2 s) st = Inr st'
            \<and> count (locals (world st')) = count (locals (world st)) + of_nat (1 * m)"
    by auto
  from call_times_NormalProgramFlow_counting [OF assms, of m]
  show "\<exists>st'. call_times m (NormalProgramFlow s) st = Inr st'
            \<and> count (locals (world st')) = count (locals (world st)) + of_nat (2 * m)"
    by auto
qed

text \<open>The call-count theorem at three calls of Behavior Two and at two flows.\<close>

theorem call_count_witness:
  "heap counting_service 1 = Some \<lparr>myFuncVar1 = Closure1 TestBasic_func1, myFuncVar2 = Bound_myMethod2Impl 1\<rparr>
   \<and> (\<exists>st'. call_times 3 (invoke_myFuncVar2 1) counting_service = Inr st'
          \<and> count (locals (world st')) = 3)
   \<and> (\<exists>st'. call_times 2 (NormalProgramFlow 1) counting_service = Inr st'
          \<and> count (locals (world st')) = 4)"
proof -
  have h: "heap counting_service 1 = Some \<lparr>myFuncVar1 = Closure1 TestBasic_func1, myFuncVar2 = Bound_myMethod2Impl 1\<rparr>"
    by (simp add: counting_service_def)
  have c: "count (locals (world counting_service)) = 0"
    by (simp add: counting_service_def)
  have s1: "myFuncVar1 \<lparr>myFuncVar1 = Closure1 TestBasic_func1, myFuncVar2 = Bound_myMethod2Impl 1\<rparr>
      = Closure1 TestBasic_func1" by simp
  have s2: "myFuncVar2 \<lparr>myFuncVar1 = Closure1 TestBasic_func1, myFuncVar2 = Bound_myMethod2Impl 1\<rparr>
      = Bound_myMethod2Impl 1" by simp
  from call_count [OF h s1 s2, of 3] call_count [OF h s1 s2, of 2] h c show ?thesis
    by simp
qed

text \<open>
  \<^verbatim>\<open>TestBasic\<close> runs two flows with a counting substitute installed; from the initial
  state the counter ends at 4, the value the test asserts, and not at 2.
\<close>

theorem two_flows_counterexample:
  "map_sum id (count \<circ> locals \<circ> world \<circ> snd) (TestBasic (start noServiceMock)) = Inr 4
   \<and> map_sum id (count \<circ> locals \<circ> world \<circ> snd) (TestBasic (start noServiceMock)) \<noteq> Inr 2"
proof -
  obtain st' where "TestBasic (start noServiceMock) = Inr ([True, True], st')"
    "count (locals (world st')) = 4"
    using TestBasic_result by blast
  then show ?thesis by simp
qed

subsection \<open>Overriding a slot\<close>



text \<open>
  C5. Successive overrides of the \<^verbatim>\<open>myFuncVar1\<close> slot: both assignments succeed, the state
  after the second is the state that the second assignment alone would have produced
  (nothing of the first substitute remains), and every invocation of the slot is a call
  of the second substitute.
\<close>

theorem override_replaces_occupant:
  assumes "heap st s = Some svc"
  shows "\<exists>st1 st2. assign_myFuncVar1 s f1 st = Inr st1
     \<and> assign_myFuncVar1 s f2 st1 = Inr st2
     \<and> assign_myFuncVar1 s f2 st = Inr st2
     \<and> heap st2 s = Some (svc\<lparr>myFuncVar1 := f2\<rparr>)
     \<and> invoke_myFuncVar1 s input st2 = call_func1 f2 input st2"
  using assms
  by (simp add: assign_myFuncVar1_def invoke_myFuncVar1_def)

text \<open>Two stubs installed in turn on a constructed service: the slot answers as the second.\<close>

theorem override_replaces_occupant_witness:
  "heap two_services 1 = Some \<lparr>myFuncVar1 = Bound_myMethod1Impl 1, myFuncVar2 = Bound_myMethod2Impl 1\<rparr>
   \<and> (\<exists>st1 st2.
         assign_myFuncVar1 1 (Closure1 (\<lambda>i e. Inr (''first'', e))) two_services = Inr st1
       \<and> assign_myFuncVar1 1 (Closure1 (\<lambda>i e. Inr (''second'', e))) st1 = Inr st2
       \<and> invoke_myFuncVar1 1 ''x'' st2 = Inr (''second'', st2))"
proof -
  have h1: "heap two_services 1 = Some \<lparr>myFuncVar1 = Bound_myMethod1Impl 1, myFuncVar2 = Bound_myMethod2Impl 1\<rparr>"
    by (simp add: two_services_def)
  from override_replaces_occupant [OF h1, of "Closure1 (\<lambda>i e. Inr (''first'', e))"
      "Closure1 (\<lambda>i e. Inr (''second'', e))" "''x''"] h1
  show ?thesis
    by (auto simp: call_func1_Closure)
qed

text \<open>
  C6. Pass-through fidelity: for every input, the second closure of \<^verbatim>\<open>TestBasic\<close> (count,
  then delegate) returns the very string that \<^verbatim>\<open>myMethod1Impl\<close> returns for that input,
  on whatever receiver and in whatever environment, prints what the real implementation
  prints, and differs only by the incremented counter.
\<close>

theorem passthrough_fidelity:
  "\<exists>e'. TestBasic_func2 input e = Inr (fst (myMethod1Impl s input e0), e')
     \<and> stdout e' = stdout (snd (myMethod1Impl (Service (locals e)) input e))
     \<and> locals e' = (locals e)\<lparr>count := count (locals e) + 1\<rparr>"
proof -
  define line where "line = ''This is my Method 1 being called! Input: '' @ input"
  have real: "myMethod1Impl r input x = (line, Println line x)" for r and x :: test_env
    by (simp add: myMethod1Impl_def line_def Let_def)
  have run: "TestBasic_func2 input e = Inr (line, Println line (count_incr e))"
    by (simp add: TestBasic_func2_def real Let_def)
  have printed: "stdout (Println line (count_incr e)) = stdout (Println line e)"
    by (simp add: Println_def count_incr_def)
  have counted: "locals (Println line (count_incr e)) = (locals e)\<lparr>count := count (locals e) + 1\<rparr>"
    by (simp add: Println_def count_incr_def)
  have direct: "fst (myMethod1Impl s input e0) = line"
    by (simp add: myMethod1Impl_def line_def Let_def)
  show ?thesis
    unfolding run real direct using printed counted by simp
qed

subsection \<open>The tests with the collaborator\<close>

text \<open>
  C7. On a constructed Service with any closure \<open>f\<close> in the \<^verbatim>\<open>myFuncVar1\<close> slot,
  \<^verbatim>\<open>NormalProgramFlow\<close> is two calls of \<open>f\<close>: first on "first call", then on
  "Method 1 called from Method 2". In \<^verbatim>\<open>TestWTestifyMockBasic\<close> the collaborator
  therefore records exactly these two calls in this order, each of the two one-time
  expectations is consumed exactly once, and \<^verbatim>\<open>AssertExpectations\<close> succeeds.
\<close>

theorem NormalProgramFlow_invokes_slot_twice:
  "(\<exists>s st0 st1. NewService st = Inr (s, st0)
       \<and> assign_myFuncVar1 s (Closure1 f) st0 = Inr st1
       \<and> NormalProgramFlow s st1 =
           (case f ''first call'' (Println ''Func calls on myService struct:'' (world st1)) of
              Inl err \<Rightarrow> Inl err
            | Inr (out1, e1) \<Rightarrow>
                (case f ''Method 1 called from Method 2'' e1 of
                   Inl err \<Rightarrow> Inl err
                 | Inr (out2, e2) \<Rightarrow> Inr (st1\<lparr>world := e2\<rparr>))))
   \<and> (\<exists>st'. TestWTestifyMockBasic tst = Inr ([True], st')
       \<and> Calls (Mock (locals (world st'))) =
           [(''myMethod1Instrumented'', [''first call'']),
            (''myMethod1Instrumented'', [''Method 1 called from Method 2''])]
       \<and> map totalCalls (ExpectedCalls (Mock (locals (world st')))) = [1, 1]
       \<and> map times (ExpectedCalls (Mock (locals (world st')))) = [1, 1])"
proof
  show "\<exists>s st0 st1. NewService st = Inr (s, st0)
       \<and> assign_myFuncVar1 s (Closure1 f) st0 = Inr st1
       \<and> NormalProgramFlow s st1 =
           (case f ''first call'' (Println ''Func calls on myService struct:'' (world st1)) of
              Inl err \<Rightarrow> Inl err
            | Inr (out1, e1) \<Rightarrow>
                (case f ''Method 1 called from Method 2'' e1 of
                   Inl err \<Rightarrow> Inl err
                 | Inr (out2, e2) \<Rightarrow> Inr (st1\<lparr>world := e2\<rparr>)))"
    by (simp add: NewService_eq assign_myFuncVar1_def NormalProgramFlow_two_calls)
  show "\<exists>st'. TestWTestifyMockBasic tst = Inr ([True], st')
       \<and> Calls (Mock (locals (world st'))) =
           [(''myMethod1Instrumented'', [''first call'']),
            (''myMethod1Instrumented'', [''Method 1 called from Method 2''])]
       \<and> map totalCalls (ExpectedCalls (Mock (locals (world st')))) = [1, 1]
       \<and> map times (ExpectedCalls (Mock (locals (world st')))) = [1, 1]"
    by (rule TestWTestifyMockBasic_result)
qed

text \<open>
  C8. Every returning call of \<^verbatim>\<open>myMethod1InstrumentedWithOrigCallTracking\<close> appends the
  real implementation's return value to \<^verbatim>\<open>capturedReturns\<close> and is recorded by the
  collaborator, so after calls on the inputs of any list the number of captured returns
  has grown by the number of calls; in \<^verbatim>\<open>TestWTestifyMockPassthrough\<close>, one run of the
  flow, both assertions hold and that number is 2.
\<close>

theorem captured_returns:
  assumes "call_each myMethod1InstrumentedWithOrigCallTracking inputs e = Inr e'"
  shows "capturedReturns (locals e') =
           capturedReturns (locals e) @ map ((@) ''This is my Method 1 being called! Input: '') inputs
       \<and> length (capturedReturns (locals e')) = length (capturedReturns (locals e)) + length inputs
       \<and> Calls (Mock (locals e')) =
           Calls (Mock (locals e)) @ map (\<lambda>i. (''myMethod1InstrumentedWithOrigCallTracking'', [i])) inputs
       \<and> (\<exists>st'. TestWTestifyMockPassthrough tst = Inr ([True, True], st')
             \<and> length (capturedReturns (locals (world st'))) = 2)"
proof -
  obtain st' where "TestWTestifyMockPassthrough tst = Inr ([True, True], st')"
    "capturedReturns (locals (world st')) =
         [''This is my Method 1 being called! Input: first call'',
          ''This is my Method 1 being called! Input: Method 1 called from Method 2'']"
    using TestWTestifyMockPassthrough_result by blast
  then have "\<exists>st'. TestWTestifyMockPassthrough tst = Inr ([True, True], st')
             \<and> length (capturedReturns (locals (world st'))) = 2"
    by simp
  with call_each_tracking [OF assms] show ?thesis by simp
qed

text \<open>The captured-returns theorem at one expected call.\<close>

theorem captured_returns_witness:
  "\<exists>e'. call_each myMethod1InstrumentedWithOrigCallTracking [''a''] expecting_a = Inr e'
     \<and> capturedReturns (locals e') = [''This is my Method 1 being called! Input: a'']
     \<and> length (capturedReturns (locals e')) = 1"
proof -
  have "\<exists>e'. call_each myMethod1InstrumentedWithOrigCallTracking [''a''] expecting_a = Inr e'"
    by (simp add: expecting_a_def myMethod1InstrumentedWithOrigCallTracking_def Called_def
        On_def Return_def Once_def emptyMock_def matches_def String_at_def myMethod1Impl_def
        Println_def Let_def)
  then obtain e' where
    r: "call_each myMethod1InstrumentedWithOrigCallTracking [''a''] expecting_a = Inr e'" ..
  have c: "capturedReturns (locals expecting_a) = []"
    by (simp add: expecting_a_def)
  from captured_returns [OF r] r c show ?thesis by simp
qed

subsection \<open>Failure\<close>

text \<open>
  C9, as the code has it. On every existing Service object an assignment to either slot
  succeeds and changes that slot of that object only. Invoking a slot that holds the real
  implementation returns; invoking a slot that holds a closure fails exactly when the
  closure fails, with the closure's error; Behavior Two bound to \<^verbatim>\<open>myMethod2Impl\<close> behaves
  likewise through the first slot.
\<close>

theorem object_adds_no_failure:
  assumes "heap st s = Some svc"
  shows "assign_myFuncVar1 s f1 st = Inr (st\<lparr>heap := (heap st)(s \<mapsto> svc\<lparr>myFuncVar1 := f1\<rparr>)\<rparr>)
     \<and> assign_myFuncVar2 s f2 st = Inr (st\<lparr>heap := (heap st)(s \<mapsto> svc\<lparr>myFuncVar2 := f2\<rparr>)\<rparr>)
     \<and> (myFuncVar1 svc = Bound_myMethod1Impl r \<longrightarrow>
          (\<exists>res. invoke_myFuncVar1 s input st = Inr res))
     \<and> (myFuncVar1 svc = Closure1 g \<longrightarrow>
          invoke_myFuncVar1 s input st =
            (case g input (world st) of
               Inl err \<Rightarrow> Inl err
             | Inr (out, e) \<Rightarrow> Inr (out, st\<lparr>world := e\<rparr>)))
     \<and> (myFuncVar2 svc = Bound_myMethod2Impl s \<and> myFuncVar1 svc = Bound_myMethod1Impl r \<longrightarrow>
          (\<exists>res. invoke_myFuncVar2 s st = Inr res))
     \<and> (myFuncVar2 svc = Bound_myMethod2Impl s \<and> myFuncVar1 svc = Closure1 g \<longrightarrow>
          invoke_myFuncVar2 s st =
            (case g ''Method 1 called from Method 2'' (world st) of
               Inl err \<Rightarrow> Inl err
             | Inr (out, e) \<Rightarrow> Inr (st\<lparr>world := e\<rparr>)))
     \<and> (myFuncVar2 svc = Closure2 g2 \<longrightarrow>
          invoke_myFuncVar2 s st =
            (case g2 (world st) of
               Inl err \<Rightarrow> Inl err
             | Inr e \<Rightarrow> Inr (st\<lparr>world := e\<rparr>)))"
  using assms
  by (simp add: assign_myFuncVar1_def assign_myFuncVar2_def invoke_myFuncVar1_def
      invoke_myFuncVar2_def call_func1_Bound call_func1_Closure call_func2_def myMethod2Impl_def
      split: sum.splits prod.splits)

text \<open>The theorem on a constructed service.\<close>

theorem object_adds_no_failure_witness:
  "heap two_services 1 = Some \<lparr>myFuncVar1 = Bound_myMethod1Impl 1, myFuncVar2 = Bound_myMethod2Impl 1\<rparr>
   \<and> (\<exists>st'. assign_myFuncVar1 1 Nil1 two_services = Inr st')
   \<and> (\<exists>st'. assign_myFuncVar2 1 Nil2 two_services = Inr st')
   \<and> (\<exists>res. invoke_myFuncVar1 1 ''x'' two_services = Inr res)
   \<and> (\<exists>res. invoke_myFuncVar2 1 two_services = Inr res)"
proof -
  have h1: "heap two_services 1 = Some \<lparr>myFuncVar1 = Bound_myMethod1Impl 1, myFuncVar2 = Bound_myMethod2Impl 1\<rparr>"
    by (simp add: two_services_def)
  from object_adds_no_failure [OF h1, of Nil1 Nil2 1 "''x''"] h1 show ?thesis
    by simp
qed

text \<open>
  A Service that did not come from \<^verbatim>\<open>NewService\<close>: on the zero value the first slot
  invocation panics, and so does the whole flow.
\<close>

theorem zero_value_invocation_counterexample:
  "invoke_myFuncVar1 (fst (new_Service (start ()))) ''first call'' (snd (new_Service (start ())))
     = Inl NilFuncCall
   \<and> NormalProgramFlow (fst (new_Service (start ()))) (snd (new_Service (start ())))
     = Inl NilFuncCall"
  by (simp add: new_Service_def start_def Let_def invoke_myFuncVar1_def NormalProgramFlow_def
      call_func1_def Println_def)

text \<open>
  C10. The zero value \<^verbatim>\<open>&Service{}\<close> has both slots nil, and invoking either public
  operation on it panics with a call of a nil function; a Service returned by
  \<^verbatim>\<open>NewService\<close> has both slots non-nil.
\<close>

theorem zero_value_Service_slots_nil:
  "heap (snd (new_Service st)) (fst (new_Service st)) = Some \<lparr>myFuncVar1 = Nil1, myFuncVar2 = Nil2\<rparr>
   \<and> invoke_myFuncVar1 (fst (new_Service st)) input (snd (new_Service st)) = Inl NilFuncCall
   \<and> invoke_myFuncVar2 (fst (new_Service st)) (snd (new_Service st)) = Inl NilFuncCall
   \<and> (\<exists>s st'. NewService st = Inr (s, st')
        \<and> myFuncVar1 (the (heap st' s)) \<noteq> Nil1 \<and> myFuncVar2 (the (heap st' s)) \<noteq> Nil2)"
  by (simp add: new_Service_def Let_def invoke_myFuncVar1_def invoke_myFuncVar2_def
      call_func1_def call_func2_def NewService_eq)

end
